theory Spec2Isabelle
  imports Main "HOL-Library.Dlist" "HOL-Library.Sublist"
begin

section \<open>Python values\<close>

text \<open>
  The fields of a \<open>Project\<close> hold untyped Python values. The values that occur in
  \<open>gns3/project.py\<close> are \<open>None\<close>, booleans and strings. A dictionary (a request body,
  the parsed body of a response) is an association list; \<open>d[k]\<close> and \<open>k in d\<close> read it
  through \<open>map_of\<close>.
\<close>

datatype pyval = PNone | PBool bool | PStr string

type_synonym pydict = "(string \<times> pyval) list"

datatype error = KeyError | TypeError | AssertionError

text \<open>\<open>str(v)\<close>, as used by \<open>"{project_id}".format(project_id=v)\<close>.\<close>

fun py_str :: "pyval \<Rightarrow> string" where
  "py_str PNone = ''None''"
| "py_str (PBool True) = ''True''"
| "py_str (PBool False) = ''False''"
| "py_str (PStr s) = s"

text \<open>The truth value of \<open>if v:\<close>.\<close>

fun truthy :: "pyval \<Rightarrow> bool" where
  "truthy PNone = False"
| "truthy (PBool b) = b"
| "truthy (PStr s) = (s \<noteq> [])"

section \<open>posixpath and str.replace\<close>

text \<open>
  \<open>os.path\<close> is modelled as \<open>posixpath\<close> (separator \<open>/\<close>), for two-argument
  \<open>join\<close>, \<open>dirname\<close> and \<open>basename\<close>.
\<close>

definition sep :: char where
  "sep = CHR ''/''"

text \<open>\<open>p.rfind(sep)\<close>: the index of the last separator, \<open>-1\<close> when there is none.\<close>

definition rfind :: "string \<Rightarrow> char \<Rightarrow> int" where
  "rfind p c =
     (if c \<in> set p then int (length p) - 1 - int (length (takeWhile (\<lambda>x. x \<noteq> c) (rev p)))
      else - 1)"

text \<open>\<open>s.rstrip(sep)\<close>: drop every trailing separator.\<close>

definition rstrip :: "string \<Rightarrow> char \<Rightarrow> string" where
  "rstrip s c = rev (dropWhile (\<lambda>x. x = c) (rev s))"

text \<open>
  \<open>os.path.join(a, b)\<close>: \<open>b\<close> alone when it starts with the separator; \<open>a + b\<close> when
  \<open>a\<close> is empty or ends with the separator; \<open>a + sep + b\<close> otherwise.
\<close>

definition join :: "string \<Rightarrow> string \<Rightarrow> string" where
  "join a b =
     (if prefix [sep] b then b
      else if a = [] \<or> suffix [sep] a then a @ b
      else a @ [sep] @ b)"

text \<open>
  \<open>os.path.dirname(p)\<close>: \<open>i = p.rfind(sep) + 1; head = p[:i]\<close>; trailing separators of
  \<open>head\<close> are stripped unless \<open>head\<close> is empty or made of separators only.
\<close>

definition dirname :: "string \<Rightarrow> string" where
  "dirname p =
     (let i = nat (rfind p sep + 1);
          head = take i p
      in if head \<noteq> [] \<and> head \<noteq> replicate (length head) sep then rstrip head sep else head)"

text \<open>\<open>os.path.basename(p)\<close>: \<open>p[p.rfind(sep) + 1:]\<close>.\<close>

definition basename :: "string \<Rightarrow> string" where
  "basename p = drop (nat (rfind p sep + 1)) p"

text \<open>
  \<open>s.replace(old, new)\<close>: every non-overlapping occurrence of \<open>old\<close>, found from the
  left, is replaced. For an empty \<open>old\<close>, Python puts \<open>new\<close> before every character and
  at the end.
\<close>

fun replace_from :: "string \<Rightarrow> string \<Rightarrow> string \<Rightarrow> string" where
  "replace_from old new [] = []"
| "replace_from old new (c # cs) =
     (if prefix old (c # cs) then new @ replace_from old new (drop (length old - 1) cs)
      else c # replace_from old new cs)"

definition str_replace :: "string \<Rightarrow> string \<Rightarrow> string \<Rightarrow> string" where
  "str_replace s old new =
     (if old = [] then concat (map (\<lambda>c. new @ [c]) s) @ new else replace_from old new s)"

section \<open>The Project object\<close>

text \<open>
  A server is an object of the HTTP client, known here by its identity. The calls that
  \<open>Project\<close> makes on a server (\<open>server.post\<close>, \<open>server.put\<close>,
  \<open>server.createHTTPQuery\<close>), the Qt signals it emits and what it prints or logs are
  recorded, in order, in the field \<open>p_effects\<close>.

  A callback handed to the HTTP client is data: the caller's own callback (opaque),
  \<open>None\<close>, the bound method \<open>self._project_closed\<close>, or the
  \<open>functools.partial\<close> of \<open>self._projectOnServerCreated\<close> with the method, path,
  callback, body and context of the suspended request.
\<close>

type_synonym server = nat

datatype callback =
    NoCallback
  | Callback nat
  | OnServerCreated string string callback pydict pyval
  | ProjectClosed

datatype signal = project_about_to_close_signal | project_closed_signal

datatype effect =
    ServerPost server string callback pydict
  | ServerPut server string callback pydict
  | ServerCreateHTTPQuery server string string callback pydict pyval
  | Emit signal
  | Print pydict
  | LogInfo string

text \<open>
  The fields \<open>_id\<close>, \<open>_temporary\<close>, \<open>_closed\<close>, \<open>_files_dir\<close>, \<open>_type\<close>,
  \<open>_name\<close> and \<open>_created_servers\<close> of the class. \<open>p_servers\<close> is what
  \<open>self._servers.localServer()\<close> answers. \<open>p_project_instances\<close> is the class
  attribute \<open>_project_instances\<close>, a set of object identities, and \<open>p_self\<close> the
  identity of this object. \<open>_created_servers\<close> is a Python set: a duplicate-free
  collection whose iteration order (\<open>list(self._created_servers)\<close>) is fixed but
  unspecified, here a \<open>dlist\<close>.
\<close>

record project =
  p_servers :: server
  p_id :: pyval
  p_temporary :: bool
  p_closed :: bool
  p_files_dir :: pyval
  p_type :: pyval
  p_name :: pyval
  p_project_instances :: "nat set"
  p_created_servers :: "server dlist"
  p_self :: nat
  p_effects :: "effect list"

type_synonym outcome = "error option \<times> project"

text \<open>\<open>__init__\<close>, given the local server, the identity of the new object and the
  class-level set of instances at that moment.\<close>

definition Project_init :: "server \<Rightarrow> nat \<Rightarrow> nat set \<Rightarrow> project" where
  "Project_init local self instances =
     \<lparr> p_servers = local, p_id = PNone, p_temporary = False, p_closed = False,
       p_files_dir = PNone, p_type = PNone, p_name = PNone,
       p_project_instances = insert self instances,
       p_created_servers = Dlist.empty, p_self = self, p_effects = [] \<rparr>"

definition emit :: "effect \<Rightarrow> project \<Rightarrow> project" where
  "emit e p = p\<lparr>p_effects := p_effects p @ [e]\<rparr>"

definition created :: "project \<Rightarrow> server list" where
  "created p = list_of_dlist (p_created_servers p)"

subsection \<open>Accessors and mutators\<close>

definition name :: "project \<Rightarrow> pyval" where
  "name p = p_name p"

definition setName :: "pyval \<Rightarrow> project \<Rightarrow> outcome" where
  "setName n p = (if n = PNone then (Some AssertionError, p) else (None, p\<lparr>p_name := n\<rparr>))"

definition closed :: "project \<Rightarrow> bool" where
  "closed p = p_closed p"

definition type_project :: "project \<Rightarrow> pyval" where
  "type_project p = p_type p"

definition setType :: "pyval \<Rightarrow> project \<Rightarrow> project" where
  "setType t p = p\<lparr>p_type := t\<rparr>"

definition temporary :: "project \<Rightarrow> bool" where
  "temporary p = p_temporary p"

definition setTemporary :: "bool \<Rightarrow> project \<Rightarrow> project" where
  "setTemporary t p = p\<lparr>p_temporary := t\<rparr>"

definition id_project :: "project \<Rightarrow> pyval" where
  "id_project p = p_id p"

definition setId :: "pyval \<Rightarrow> project \<Rightarrow> project" where
  "setId project_id p = p\<lparr>p_id := project_id\<rparr>"

definition filesDir :: "project \<Rightarrow> pyval" where
  "filesDir p = p_files_dir p"

definition setFilesDir :: "pyval \<Rightarrow> project \<Rightarrow> project" where
  "setFilesDir files_dir p = p\<lparr>p_files_dir := files_dir\<rparr>"

text \<open>\<open>topologyFile\<close>: \<open>self._name + ".gns3"\<close> and \<open>os.path.join\<close> raise
  \<open>TypeError\<close> unless both fields are strings.\<close>

definition topologyFile :: "project \<Rightarrow> error + string" where
  "topologyFile p =
     (case p_name p of
        PStr n \<Rightarrow> (case p_files_dir p of
                     PStr d \<Rightarrow> Inr (join d (n @ ''.gns3''))
                   | _ \<Rightarrow> Inl TypeError)
      | _ \<Rightarrow> Inl TypeError)"

definition setTopologyFile :: "string \<Rightarrow> project \<Rightarrow> project" where
  "setTopologyFile topology_file p =
     (setFilesDir (PStr (dirname topology_file)) p)
       \<lparr>p_name := PStr (str_replace (basename topology_file) ''.gns3'' [])\<rparr>"

subsection \<open>Requests\<close>

definition commit :: "project \<Rightarrow> project" where
  "commit p =
     p\<lparr>p_effects := p_effects p @
        map (\<lambda>server. ServerPost server (''/projects/'' @ py_str (p_id p) @ ''/commit'') NoCallback [])
          (created p)\<rparr>"

text \<open>
  \<open>_projectOnServerCreated\<close>. \<open>params["project_id"]\<close> raises \<open>KeyError\<close> when the
  key is missing; it is read only while \<open>_id\<close> is \<open>None\<close>. The HTTP client calls a
  callback with the parsed body, the error flag and the server it belongs to, so the
  keyword arguments \<open>error\<close> and \<open>server\<close> are always given; \<open>path\<close> is a
  string, and the context is the one bound in the partial application.
\<close>

definition projectOnServerCreated ::
  "string \<Rightarrow> string \<Rightarrow> callback \<Rightarrow> pydict \<Rightarrow> pydict \<Rightarrow> bool \<Rightarrow> server \<Rightarrow> pyval \<Rightarrow> project \<Rightarrow> outcome"
where
  "projectOnServerCreated method path callback body params err server context p =
     (if err then (None, emit (Print params) p)
      else
        (case (if p_id p = PNone
               then (case map_of params ''project_id'' of
                       None \<Rightarrow> Inl KeyError
                     | Some v \<Rightarrow> Inr (p\<lparr>p_id := v\<rparr>))
               else Inr p) of
           Inl e \<Rightarrow> (Some e, p)
         | Inr p1 \<Rightarrow>
             let p2 = (if server = p_servers p1
                       then (case map_of params ''path'' of
                               Some v \<Rightarrow> p1\<lparr>p_files_dir := v\<rparr>
                             | None \<Rightarrow> p1)
                       else p1);
                 p3 = p2\<lparr>p_closed := False\<rparr>;
                 p4 = p3\<lparr>p_created_servers := Dlist.insert server (p_created_servers p3)\<rparr>;
                 path' = ''/projects/'' @ py_str (p_id p4) @ path
             in (None, emit (ServerCreateHTTPQuery server method path' callback body context) p4)))"

text \<open>\<open>_projectHTTPQuery\<close>.\<close>

definition projectHTTPQuery ::
  "server \<Rightarrow> string \<Rightarrow> string \<Rightarrow> callback \<Rightarrow> pydict \<Rightarrow> pyval \<Rightarrow> project \<Rightarrow> outcome"
where
  "projectHTTPQuery server method path callback body context p =
     (if \<not> Dlist.member (p_created_servers p) server then
        let func = OnServerCreated method path callback body context;
            body1 = [(''temporary'', PBool (p_temporary p)), (''project_id'', p_id p)];
            body2 = (if server = p_servers p then body1 @ [(''path'', filesDir p)] else body1)
        in (None, emit (ServerPost server ''/projects'' func body2) p)
      else projectOnServerCreated method path callback body [] False server context p)"

definition get :: "server \<Rightarrow> string \<Rightarrow> callback \<Rightarrow> pyval \<Rightarrow> project \<Rightarrow> outcome" where
  "get server path callback context p = projectHTTPQuery server ''GET'' path callback [] context p"

definition post :: "server \<Rightarrow> string \<Rightarrow> callback \<Rightarrow> pydict \<Rightarrow> pyval \<Rightarrow> project \<Rightarrow> outcome" where
  "post server path callback body context p =
     projectHTTPQuery server ''POST'' path callback body context p"

definition put :: "server \<Rightarrow> string \<Rightarrow> callback \<Rightarrow> pydict \<Rightarrow> pyval \<Rightarrow> project \<Rightarrow> outcome" where
  "put server path callback body context p =
     projectHTTPQuery server ''PUT'' path callback body context p"

definition delete :: "server \<Rightarrow> string \<Rightarrow> callback \<Rightarrow> pyval \<Rightarrow> project \<Rightarrow> outcome" where
  "delete server path callback context p =
     projectHTTPQuery server ''DELETE'' path callback [] context p"

subsection \<open>Closing and moving\<close>

text \<open>
  \<open>close\<close>. The assignment \<open>server = self._servers.localServer()\<close> before the loop
  is overwritten by the loop variable and has no effect. The slots connected to a signal
  belong to other objects; an emission is recorded and nothing more.
\<close>

definition close :: "project \<Rightarrow> project" where
  "close p =
     (if truthy (p_id p) then
        let p1 = emit (Emit project_about_to_close_signal) p
        in p1\<lparr>p_effects := p_effects p1 @
             map (\<lambda>server. ServerPost server (''/projects/'' @ py_str (p_id p1) @ ''/close'')
                              ProjectClosed [])
               (created p1)\<rparr>
      else
        let p1 = emit (Emit project_about_to_close_signal) p;
            p2 = emit (Emit project_closed_signal) p1
        in p2\<lparr>p_closed := True\<rparr>)"

text \<open>
  \<open>_project_closed\<close>. The removal from \<open>_created_servers\<close> is outside the
  \<open>if error: ... else: ...\<close> statement and runs in both cases; \<open>set.remove\<close> raises
  \<open>KeyError\<close> for an element that is not in the set.
\<close>

definition project_closed :: "pydict \<Rightarrow> bool \<Rightarrow> server \<Rightarrow> project \<Rightarrow> outcome" where
  "project_closed params err server p =
     (let p1 = (if err then emit (Print params) p
                else if truthy (p_id p)
                     then emit (LogInfo (''Project '' @ py_str (p_id p) @ '' closed'')) p
                     else p)
      in if \<not> Dlist.member (p_created_servers p1) server then (Some KeyError, p1)
         else
           let p2 = p1\<lparr>p_created_servers := Dlist.remove server (p_created_servers p1)\<rparr>
           in if Dlist.length (p_created_servers p2) = 0 then
                let p3 = p2\<lparr>p_closed := True\<rparr>;
                    p4 = emit (Emit project_closed_signal) p3
                in if p_self p4 \<in> p_project_instances p4
                   then (None, p4\<lparr>p_project_instances := p_project_instances p4 - {p_self p4}\<rparr>)
                   else (Some KeyError, p4)
              else (None, p2))"

definition moveFromTemporaryToPath :: "pyval \<Rightarrow> project \<Rightarrow> project" where
  "moveFromTemporaryToPath path p =
     (let p1 = p\<lparr>p_files_dir := path\<rparr>;
          p2 = p1\<lparr>p_temporary := False\<rparr>
      in p2\<lparr>p_effects := p_effects p2 @
           map (\<lambda>server. ServerPut server (''/projects/'' @ py_str (p_id p2)) NoCallback
                            [(''path'', path), (''temporary'', PBool False)])
             (created p2)\<rparr>)"

section \<open>Histories\<close>

text \<open>
  What can happen to a \<open>Project\<close>: a call of one of its public methods, or the HTTP
  client answering a request by calling the callback it was given, with the parsed
  body, the error flag and the server. \<open>ServerCreatedReply\<close> is a call of the partial
  application of \<open>_projectOnServerCreated\<close> registered by a creation POST,
  \<open>ProjectClosedReply\<close> a call of \<open>_project_closed\<close>.
\<close>

datatype event =
    SetName pyval
  | SetType pyval
  | SetTemporary bool
  | SetId pyval
  | SetFilesDir pyval
  | SetTopologyFile string
  | Commit
  | Get server string callback pyval
  | Post server string callback pydict pyval
  | Put server string callback pydict pyval
  | Delete server string callback pyval
  | Close
  | MoveFromTemporaryToPath pyval
  | ServerCreatedReply string string callback pydict pyval pydict bool server
  | ProjectClosedReply pydict bool server

fun step :: "event \<Rightarrow> project \<Rightarrow> outcome" where
  "step (SetName n) p = setName n p"
| "step (SetType t) p = (None, setType t p)"
| "step (SetTemporary t) p = (None, setTemporary t p)"
| "step (SetId i) p = (None, setId i p)"
| "step (SetFilesDir d) p = (None, setFilesDir d p)"
| "step (SetTopologyFile f) p = (None, setTopologyFile f p)"
| "step Commit p = (None, commit p)"
| "step (Get server path callback context) p = get server path callback context p"
| "step (Post server path callback body context) p = post server path callback body context p"
| "step (Put server path callback body context) p = put server path callback body context p"
| "step (Delete server path callback context) p = delete server path callback context p"
| "step Close p = (None, close p)"
| "step (MoveFromTemporaryToPath path) p = (None, moveFromTemporaryToPath path p)"
| "step (ServerCreatedReply method path callback body context params err server) p =
     projectOnServerCreated method path callback body params err server context p"
| "step (ProjectClosedReply params err server) p = project_closed params err server p"

text \<open>
  The object after a history. An exception goes to whoever made the call (the caller of
  the method, or the HTTP client for a callback); the object stays as the raising method
  left it, and later calls meet it in that state.
\<close>

fun run :: "event list \<Rightarrow> project \<Rightarrow> project" where
  "run [] p = p"
| "run (e # es) p = run es (snd (step e p))"

text \<open>
  The request behind a call of \<open>get\<close>, \<open>post\<close>, \<open>put\<close> or \<open>delete\<close>: the
  arguments that the method hands to \<open>_projectHTTPQuery\<close> (\<open>get\<close> and \<open>delete\<close>
  leave the body at its default, the empty dictionary).
\<close>

fun request_of :: "event \<Rightarrow> (server \<times> string \<times> string \<times> callback \<times> pydict \<times> pyval) option" where
  "request_of (Get server path callback context) =
     Some (server, ''GET'', path, callback, [], context)"
| "request_of (Post server path callback body context) =
     Some (server, ''POST'', path, callback, body, context)"
| "request_of (Put server path callback body context) =
     Some (server, ''PUT'', path, callback, body, context)"
| "request_of (Delete server path callback context) =
     Some (server, ''DELETE'', path, callback, [], context)"
| "request_of _ = None"

text \<open>A creation response for server \<open>s\<close>, with or without the error flag.\<close>

fun creation_reply_for :: "server \<Rightarrow> event \<Rightarrow> bool" where
  "creation_reply_for s (ServerCreatedReply method path callback body context params err server) =
     (server = s)"
| "creation_reply_for s _ = False"

text \<open>A call of \<open>setId\<close>.\<close>

fun sets_identifier :: "event \<Rightarrow> bool" where
  "sets_identifier (SetId i) = True"
| "sets_identifier _ = False"

text \<open>A creation response for server \<open>s\<close> without the error flag.\<close>

fun creation_succeeded :: "server \<Rightarrow> event \<Rightarrow> bool" where
  "creation_succeeded s (ServerCreatedReply method path callback body context params err server) =
     (server = s \<and> \<not> err)"
| "creation_succeeded s _ = False"

text \<open>A close response for server \<open>s\<close>, with or without the error flag.\<close>

fun close_reply_for :: "server \<Rightarrow> event \<Rightarrow> bool" where
  "close_reply_for s (ProjectClosedReply params err server) = (server = s)"
| "close_reply_for s _ = False"

text \<open>
  The REST interface: the response to \<open>POST /projects\<close> includes \<open>project_id\<close>.
  An event conforms when it is not a creation response, or has the error flag, or
  carries the key.
\<close>

fun carries_project_id :: "event \<Rightarrow> bool" where
  "carries_project_id (ServerCreatedReply method path callback body context params err server) =
     (err \<or> map_of params ''project_id'' \<noteq> None)"
| "carries_project_id _ = True"

text \<open>
  In the history \<open>h\<close>, a creation on \<open>s\<close> has succeeded and no close response
  for \<open>s\<close> has been processed since.
\<close>

definition created_and_not_closed :: "server \<Rightarrow> event list \<Rightarrow> bool" where
  "created_and_not_closed s h \<longleftrightarrow>
     (\<exists>before c after. h = before @ c # after \<and> creation_succeeded s c
        \<and> (\<forall>e\<in>set after. \<not> close_reply_for s e))"

section \<open>How the set of created servers changes\<close>

lemma step_request:
  "request_of e = Some (s, m, path, cb, b, ctx) \<Longrightarrow> step e p = projectHTTPQuery s m path cb b ctx p"
  by (cases e) (auto simp: get_def post_def put_def delete_def)

lemma request_not_reply: "request_of e = Some r \<Longrightarrow> \<not> creation_reply_for s e"
  by (cases e) auto

lemma created_emit [simp]: "created (emit e p) = created p"
  by (simp add: created_def emit_def)

lemma member_created: "Dlist.member (p_created_servers p) s \<longleftrightarrow> s \<in> set (created p)"
  by (simp add: Dlist.member_def created_def)

lemma set_created_projectOnServerCreated:
  "set (created (snd (projectOnServerCreated m path cb b params err s ctx p))) =
     (if \<not> err \<and> (p_id p \<noteq> PNone \<or> map_of params ''project_id'' \<noteq> None)
      then insert s (set (created p)) else set (created p))"
  by (auto simp: projectOnServerCreated_def Let_def created_def emit_def split: option.splits)

lemma set_created_projectHTTPQuery:
  "set (created (snd (projectHTTPQuery s m path cb b ctx p))) = set (created p)"
  by (auto simp: projectHTTPQuery_def Let_def set_created_projectOnServerCreated member_created)

lemma set_created_project_closed:
  "set (created (snd (project_closed params err s p))) = set (created p) - {s}"
  by (auto simp: project_closed_def Let_def created_def emit_def Dlist.member_def)

lemma set_created_step:
  "set (created (snd (step e p))) =
    (case e of
       ServerCreatedReply m path cb b ctx params err s \<Rightarrow>
         (if \<not> err \<and> (p_id p \<noteq> PNone \<or> map_of params ''project_id'' \<noteq> None)
          then insert s (set (created p)) else set (created p))
     | ProjectClosedReply params err s \<Rightarrow> set (created p) - {s}
     | _ \<Rightarrow> set (created p))"
  by (cases e)
     (simp_all add: set_created_projectOnServerCreated set_created_projectHTTPQuery
        set_created_project_closed get_def post_def put_def delete_def,
      simp_all add: created_def setName_def setType_def setTemporary_def setId_def setFilesDir_def
        setTopologyFile_def commit_def close_def moveFromTemporaryToPath_def Let_def emit_def)

lemma not_created_run:
  "s \<notin> set (created p) \<Longrightarrow> \<forall>e\<in>set h. \<not> creation_reply_for s e \<Longrightarrow> s \<notin> set (created (run h p))"
proof (induction h arbitrary: p)
  case Nil
  then show ?case by simp
next
  case (Cons e h)
  from Cons.prems have "s \<notin> set (created (snd (step e p)))"
    by (auto simp: set_created_step split: event.splits)
  with Cons show ?case by simp
qed

section \<open>Closing a project\<close>

text \<open>
  Claim C5. For a project whose identifier is unset (\<open>None\<close>), \<open>close()\<close> itself,
  before it returns, emits the about-to-close signal and the closed signal and sets the
  closed flag; these two signals are all it does, so no request goes to any server.
\<close>

theorem close_without_identifier:
  assumes "id_project p = PNone"
  shows "close p = p\<lparr>p_closed := True,
                     p_effects := p_effects p @
                       [Emit project_about_to_close_signal, Emit project_closed_signal]\<rparr>
         \<and> closed (close p)"
  using assms by (simp add: close_def emit_def Let_def id_project_def closed_def)

theorem close_without_identifier_witness:
  "id_project (Project_init 0 1 {}) = PNone
   \<and> closed (close (Project_init 0 1 {}))
   \<and> p_effects (close (Project_init 0 1 {})) =
       [Emit project_about_to_close_signal, Emit project_closed_signal]"
  using close_without_identifier [of "Project_init 0 1 {}"]
  by (simp add: Project_init_def id_project_def closed_def)

text \<open>
  Claim C10. For a project whose identifier is set (truthy) while no server is in the
  created set, \<open>close()\<close> emits the about-to-close signal and nothing else: no request
  is sent (so no close response will ever come back to finish the closing), the closed
  flag stays as it was (false stays false), the closed signal is not emitted and the
  project stays in the set of live instances.
\<close>

theorem close_without_created_servers:
  assumes "truthy (id_project p)" and "created p = []"
  shows "close p = p\<lparr>p_effects := p_effects p @ [Emit project_about_to_close_signal]\<rparr>
         \<and> closed (close p) = closed p
         \<and> p_project_instances (close p) = p_project_instances p"
  using assms by (simp add: close_def emit_def Let_def id_project_def closed_def created_def)

theorem close_without_created_servers_witness:
  "truthy (id_project (setId (PStr ''abc'') (Project_init 0 1 {})))
   \<and> created (setId (PStr ''abc'') (Project_init 0 1 {})) = []
   \<and> \<not> closed (close (setId (PStr ''abc'') (Project_init 0 1 {})))
   \<and> 1 \<in> p_project_instances (close (setId (PStr ''abc'') (Project_init 0 1 {})))
   \<and> p_effects (close (setId (PStr ''abc'') (Project_init 0 1 {}))) =
       [Emit project_about_to_close_signal]"
  using close_without_created_servers [of "setId (PStr ''abc'') (Project_init 0 1 {})"]
  by (simp add: Project_init_def id_project_def setId_def created_def closed_def)

section \<open>Moving a temporary project\<close>

text \<open>
  Claim C8. \<open>moveFromTemporaryToPath(path)\<close> sets the files directory to \<open>path\<close>,
  clears the temporary flag and calls \<open>put\<close> once on each server of the created set
  (the list \<open>created p\<close> has no duplicates), on \<open>/projects/{id}\<close> with the body
  \<open>{path: path, temporary: false}\<close>; no other field of the project changes.
\<close>

theorem moveFromTemporaryToPath_effect:
  "moveFromTemporaryToPath path p =
     p\<lparr>p_files_dir := path, p_temporary := False,
       p_effects := p_effects p @
         map (\<lambda>server. ServerPut server (''/projects/'' @ py_str (id_project p)) NoCallback
                          [(''path'', path), (''temporary'', PBool False)])
           (created p)\<rparr>
   \<and> distinct (created p)
   \<and> filesDir (moveFromTemporaryToPath path p) = path
   \<and> \<not> temporary (moveFromTemporaryToPath path p)"
  by (simp add: moveFromTemporaryToPath_def Let_def created_def id_project_def filesDir_def
        temporary_def)

section \<open>Creation requests\<close>

text \<open>
  Claim C9. Let a server \<open>s\<close> be outside the created set. Of two calls of
  \<open>get\<close>, \<open>post\<close>, \<open>put\<close> or \<open>delete\<close> for \<open>s\<close>, with anything but a creation
  response for \<open>s\<close> processed in between, each sends its own creation POST to
  \<open>/projects\<close> on \<open>s\<close>: the second call is not held back by the first.
\<close>

theorem duplicate_creation_requests:
  assumes "s \<notin> set (created p)"
    and "request_of e1 = Some (s, m1, path1, cb1, b1, ctx1)"
    and "request_of e2 = Some (s, m2, path2, cb2, b2, ctx2)"
    and "\<forall>e\<in>set between. \<not> creation_reply_for s e"
  shows "step e1 p =
           (None, emit (ServerPost s ''/projects'' (OnServerCreated m1 path1 cb1 b1 ctx1)
                    ([(''temporary'', PBool (temporary p)), (''project_id'', id_project p)] @
                     (if s = p_servers p then [(''path'', filesDir p)] else []))) p)
         \<and> (let q = run (e1 # between) p in
            step e2 q =
              (None, emit (ServerPost s ''/projects'' (OnServerCreated m2 path2 cb2 b2 ctx2)
                    ([(''temporary'', PBool (temporary q)), (''project_id'', id_project q)] @
                     (if s = p_servers q then [(''path'', filesDir q)] else []))) q))"
proof -
  have q: "s \<notin> set (created (run (e1 # between) p))"
    using assms(1,4) request_not_reply[OF assms(2)] by (intro not_created_run) auto
  have *: "\<And>m path cb b ctx r. s \<notin> set (created r) \<Longrightarrow>
      projectHTTPQuery s m path cb b ctx r =
        (None, emit (ServerPost s ''/projects'' (OnServerCreated m path cb b ctx)
                    ([(''temporary'', PBool (temporary r)), (''project_id'', id_project r)] @
                     (if s = p_servers r then [(''path'', filesDir r)] else []))) r)"
    by (simp add: projectHTTPQuery_def member_created Let_def temporary_def id_project_def)
  show ?thesis
    using *[OF assms(1)] *[OF q] step_request[OF assms(2)] step_request[OF assms(3)]
    by (simp add: Let_def)
qed

theorem duplicate_creation_requests_witness:
  "(0::nat) \<notin> set (created (Project_init 0 1 {}))
   \<and> \<not> creation_reply_for 0 (SetTemporary True)
   \<and> p_effects (run [Get 0 ''/a'' (Callback 1) PNone, SetTemporary True,
                     Post 0 ''/b'' (Callback 2) [] PNone] (Project_init 0 1 {})) =
       [ServerPost 0 ''/projects'' (OnServerCreated ''GET'' ''/a'' (Callback 1) [] PNone)
          [(''temporary'', PBool False), (''project_id'', PNone), (''path'', PNone)],
        ServerPost 0 ''/projects'' (OnServerCreated ''POST'' ''/b'' (Callback 2) [] PNone)
          [(''temporary'', PBool True), (''project_id'', PNone), (''path'', PNone)]]"
  using duplicate_creation_requests [of 0 "Project_init 0 1 {}" "Get 0 ''/a'' (Callback 1) PNone"
      "''GET''" "''/a''" "Callback 1" "[]" PNone "Post 0 ''/b'' (Callback 2) [] PNone"
      "''POST''" "''/b''" "Callback 2" "[]" PNone "[SetTemporary True]"]
  by (simp add: Project_init_def created_def emit_def temporary_def id_project_def filesDir_def
        get_def projectHTTPQuery_def Dlist.member_def Let_def setTemporary_def)

section \<open>Responses with the error flag\<close>

lemma dlist_insert_member: "s \<in> set (list_of_dlist d) \<Longrightarrow> Dlist.insert s d = d"
  by (simp add: dlist_eq_iff)

lemma projectOnServerCreated_error:
  "projectOnServerCreated m path cb b params True s ctx p = (None, emit (Print params) p)"
  by (simp add: projectOnServerCreated_def)

lemma projectOnServerCreated_direct:
  "s \<in> set (created p) \<Longrightarrow> p_id p \<noteq> PNone \<Longrightarrow>
   projectOnServerCreated m path cb b [] False s ctx p =
     (None, emit (ServerCreateHTTPQuery s m (''/projects/'' @ py_str (p_id p) @ path) cb b ctx)
              (p\<lparr>p_closed := False\<rparr>))"
  by (auto simp: projectOnServerCreated_def Let_def dlist_insert_member created_def)

text \<open>
  What a close response with the error flag does when its server is the last one in
  the created set: the body is printed, and then the server is removed, the project is
  marked closed, the closed signal is emitted and the project leaves the set of live
  instances, as for a successful response.
\<close>

lemma project_closed_error_last:
  assumes "created p = [s]" and "p_self p \<in> p_project_instances p"
  shows "project_closed params True s p =
           (None, p\<lparr>p_created_servers := Dlist.empty, p_closed := True,
                    p_effects := p_effects p @ [Print params, Emit project_closed_signal],
                    p_project_instances := p_project_instances p - {p_self p}\<rparr>)"
proof -
  have m: "Dlist.member (p_created_servers p) s"
    using assms(1) by (simp add: Dlist.member_def created_def)
  have r: "Dlist.remove s (p_created_servers p) = Dlist.empty"
    using assms(1) by (simp add: dlist_eq_iff created_def)
  show ?thesis
    using m r assms(2) by (simp add: project_closed_def Let_def emit_def Dlist.length_def)
qed

text \<open>
  Claim C1 says that a response with the error flag aborts the operation: a creation
  error changes no field and does not add the server, a close error does not remove the
  server from the created set. The creation callback does so (first conjunct: only the
  body is printed). The close callback does not: its error branch, marked
  \<open>TODO: handle errors\<close>, only prints, and the removal that follows the
  \<open>if\<close> statement runs all the same. After a creation on server 0 and \<open>close()\<close>,
  a close response with the error flag empties the created set, sets the closed flag,
  emits \<open>project_closed_signal\<close> (documented as "called when the project is closed on
  all servers") and removes the project from \<open>_project_instances\<close>.
\<close>

theorem close_error_removes_server:
  "step (ServerCreatedReply ''GET'' ''/a'' (Callback 1) [] PNone
           [(''message'', PStr ''Conflict'')] True 0) (Project_init 0 1 {}) =
     (None, emit (Print [(''message'', PStr ''Conflict'')]) (Project_init 0 1 {}))
   \<and> created (run [Get 0 ''/a'' (Callback 1) PNone,
                   ServerCreatedReply ''GET'' ''/a'' (Callback 1) [] PNone
                     [(''project_id'', PStr ''abc'')] False 0,
                   Close] (Project_init 0 1 {})) = [0]
   \<and> created (run [Get 0 ''/a'' (Callback 1) PNone,
                   ServerCreatedReply ''GET'' ''/a'' (Callback 1) [] PNone
                     [(''project_id'', PStr ''abc'')] False 0,
                   Close,
                   ProjectClosedReply [(''message'', PStr ''Conflict'')] True 0]
                (Project_init 0 1 {})) = []
   \<and> closed (run [Get 0 ''/a'' (Callback 1) PNone,
                   ServerCreatedReply ''GET'' ''/a'' (Callback 1) [] PNone
                     [(''project_id'', PStr ''abc'')] False 0,
                   Close,
                   ProjectClosedReply [(''message'', PStr ''Conflict'')] True 0]
                (Project_init 0 1 {}))
   \<and> p_project_instances
         (run [Get 0 ''/a'' (Callback 1) PNone,
               ServerCreatedReply ''GET'' ''/a'' (Callback 1) [] PNone
                 [(''project_id'', PStr ''abc'')] False 0,
               Close,
               ProjectClosedReply [(''message'', PStr ''Conflict'')] True 0]
            (Project_init 0 1 {})) = {}
   \<and> p_effects
         (run [Get 0 ''/a'' (Callback 1) PNone,
               ServerCreatedReply ''GET'' ''/a'' (Callback 1) [] PNone
                 [(''project_id'', PStr ''abc'')] False 0,
               Close,
               ProjectClosedReply [(''message'', PStr ''Conflict'')] True 0]
            (Project_init 0 1 {})) =
       [ServerPost 0 ''/projects'' (OnServerCreated ''GET'' ''/a'' (Callback 1) [] PNone)
          [(''temporary'', PBool False), (''project_id'', PNone), (''path'', PNone)],
        ServerCreateHTTPQuery 0 ''GET'' ''/projects/abc/a'' (Callback 1) [] PNone,
        Emit project_about_to_close_signal,
        ServerPost 0 ''/projects/abc/close'' ProjectClosed [],
        Print [(''message'', PStr ''Conflict'')],
        Emit project_closed_signal]"
  by (simp add: Project_init_def get_def projectHTTPQuery_def projectOnServerCreated_def
        project_closed_def close_def emit_def created_def closed_def filesDir_def Let_def
        Dlist.member_def Dlist.length_def)

section \<open>The identifier\<close>

lemma id_projectOnServerCreated:
  "p_id p \<noteq> PNone \<Longrightarrow> p_id (snd (projectOnServerCreated m path cb b params err s ctx p)) = p_id p"
  by (simp add: projectOnServerCreated_def Let_def emit_def split: option.splits)

lemma id_step:
  "p_id p \<noteq> PNone \<Longrightarrow> \<not> sets_identifier e \<Longrightarrow> p_id (snd (step e p)) = p_id p"
  by (cases e)
     (simp_all add: id_projectOnServerCreated get_def post_def put_def delete_def
        projectHTTPQuery_def Let_def emit_def setName_def setType_def setTemporary_def
        setFilesDir_def setTopologyFile_def commit_def close_def moveFromTemporaryToPath_def
        project_closed_def)

lemma id_run:
  "p_id p \<noteq> PNone \<Longrightarrow> \<forall>e\<in>set h. \<not> sets_identifier e \<Longrightarrow> p_id (run h p) = p_id p"
  by (induction h arbitrary: p) (simp_all add: id_step)

text \<open>
  Claim C6, as the code has it. Creation responses assign the identifier only while it
  is \<open>None\<close>. When a successful creation response carrying \<open>project_id = v\<close> (not
  \<open>None\<close>) is processed while the identifier is still \<open>None\<close>, \<open>id()\<close> is \<open>v\<close>
  after it and after every later operation, later creation responses included, as long as
  \<open>setId\<close> is not called.
\<close>

theorem first_identifier_retained:
  assumes "id_project p = PNone"
    and "map_of params ''project_id'' = Some v" and "v \<noteq> PNone"
    and "\<forall>e\<in>set later. \<not> sets_identifier e"
  shows "\<forall>k. id_project
           (run (ServerCreatedReply m path cb b ctx params False s # take k later) p) = v"
proof
  fix k
  let ?q = "snd (step (ServerCreatedReply m path cb b ctx params False s) p)"
  have q: "p_id ?q = v"
    using assms(1,2)
    by (simp add: projectOnServerCreated_def Let_def emit_def id_project_def split: option.splits)
  have "\<forall>e\<in>set (take k later). \<not> sets_identifier e"
    using assms(4) by (meson in_set_takeD)
  then have "p_id (run (take k later) ?q) = p_id ?q"
    using q assms(3) by (intro id_run) simp_all
  then show "id_project
           (run (ServerCreatedReply m path cb b ctx params False s # take k later) p) = v"
    using q by (simp add: id_project_def)
qed

theorem first_identifier_retained_witness:
  "id_project (Project_init 0 1 {}) = PNone
   \<and> map_of [(''project_id'', PStr ''abc'')] ''project_id'' = Some (PStr ''abc'')
   \<and> \<not> sets_identifier (Get 5 ''/b'' (Callback 2) PNone)
   \<and> \<not> sets_identifier (ServerCreatedReply ''GET'' ''/b'' (Callback 2) [] PNone
                           [(''project_id'', PStr ''xyz'')] False 5)
   \<and> id_project
       (run [ServerCreatedReply ''GET'' ''/a'' (Callback 1) [] PNone
               [(''project_id'', PStr ''abc'')] False 0,
             Get 5 ''/b'' (Callback 2) PNone,
             ServerCreatedReply ''GET'' ''/b'' (Callback 2) [] PNone
               [(''project_id'', PStr ''xyz'')] False 5]
          (Project_init 0 1 {})) = PStr ''abc''"
  using first_identifier_retained [of "Project_init 0 1 {}" "[(''project_id'', PStr ''abc'')]"
      "PStr ''abc''"
      "[Get 5 ''/b'' (Callback 2) PNone,
        ServerCreatedReply ''GET'' ''/b'' (Callback 2) [] PNone
          [(''project_id'', PStr ''xyz'')] False 5]"
      "''GET''" "''/a''" "Callback 1" "[]" PNone 0, THEN spec, of 2]
  by (simp add: Project_init_def id_project_def)

text \<open>
  The claim as stated fails: \<open>setId\<close> is one of the operations, and it overwrites the
  identifier that the first creation response assigned.
\<close>

theorem identifier_overwritten_counterexample:
  "id_project (run [Get 0 ''/a'' (Callback 1) PNone,
                    ServerCreatedReply ''GET'' ''/a'' (Callback 1) [] PNone
                      [(''project_id'', PStr ''abc'')] False 0] (Project_init 0 1 {})) = PStr ''abc''
   \<and> id_project (run [Get 0 ''/a'' (Callback 1) PNone,
                    ServerCreatedReply ''GET'' ''/a'' (Callback 1) [] PNone
                      [(''project_id'', PStr ''abc'')] False 0,
                    SetId (PStr ''xyz'')] (Project_init 0 1 {})) = PStr ''xyz''"
  by (simp add: Project_init_def get_def projectHTTPQuery_def projectOnServerCreated_def
        setId_def emit_def id_project_def Let_def Dlist.member_def)

section \<open>Lazy creation\<close>

text \<open>
  Claim C3, as the code has it. (1) A call of \<open>get\<close>, \<open>post\<close>, \<open>put\<close> or
  \<open>delete\<close> for a server outside the created set sends a creation POST to
  \<open>/projects\<close>, whose body holds the temporary flag and the identifier (\<open>None\<close> when
  unknown), and the files directory as \<open>path\<close> exactly when the server is the local
  server; the callback of that POST holds the suspended method, path, callback, body and
  context. (2) A creation response without the error flag that carries \<open>project_id\<close>
  records the server as created, adopts the identifier when none was known, and replays
  the suspended request under \<open>/projects/{id}{path}\<close>. (3) For a server in the
  created set and an identifier that is not \<open>None\<close>, the request is sent under
  \<open>/projects/{id}{path}\<close> at once, with no creation POST.
\<close>

theorem lazy_creation:
  "(request_of e = Some (s, m, path, cb, b, ctx) \<and> s \<notin> set (created p) \<longrightarrow>
      step e p =
        (None, emit (ServerPost s ''/projects'' (OnServerCreated m path cb b ctx)
                 ([(''temporary'', PBool (temporary p)), (''project_id'', id_project p)] @
                  (if s = p_servers p then [(''path'', filesDir p)] else []))) p))
   \<and> (map_of params ''project_id'' = Some v \<longrightarrow>
       (let r = step (ServerCreatedReply m path cb b ctx params False s) p;
            q = snd r
        in fst r = None \<and> s \<in> set (created q)
           \<and> id_project q = (if id_project p = PNone then v else id_project p)
           \<and> p_effects q = p_effects p @
               [ServerCreateHTTPQuery s m (''/projects/'' @ py_str (id_project q) @ path) cb b ctx]))
   \<and> (request_of e = Some (s, m, path, cb, b, ctx) \<and> s \<in> set (created p)
        \<and> id_project p \<noteq> PNone \<longrightarrow>
      step e p =
        (None, emit (ServerCreateHTTPQuery s m (''/projects/'' @ py_str (id_project p) @ path)
                       cb b ctx) (p\<lparr>p_closed := False\<rparr>)))"
proof (intro conjI impI)
  assume "request_of e = Some (s, m, path, cb, b, ctx) \<and> s \<notin> set (created p)"
  then show "step e p =
        (None, emit (ServerPost s ''/projects'' (OnServerCreated m path cb b ctx)
                 ([(''temporary'', PBool (temporary p)), (''project_id'', id_project p)] @
                  (if s = p_servers p then [(''path'', filesDir p)] else []))) p)"
    by (simp add: step_request projectHTTPQuery_def member_created Let_def temporary_def
          id_project_def)
next
  assume "map_of params ''project_id'' = Some v"
  then show "let r = step (ServerCreatedReply m path cb b ctx params False s) p;
            q = snd r
        in fst r = None \<and> s \<in> set (created q)
           \<and> id_project q = (if id_project p = PNone then v else id_project p)
           \<and> p_effects q = p_effects p @
               [ServerCreateHTTPQuery s m (''/projects/'' @ py_str (id_project q) @ path) cb b ctx]"
    by (auto simp: projectOnServerCreated_def Let_def emit_def id_project_def created_def
          split: option.splits)
next
  assume "request_of e = Some (s, m, path, cb, b, ctx) \<and> s \<in> set (created p)
        \<and> id_project p \<noteq> PNone"
  then show "step e p =
        (None, emit (ServerCreateHTTPQuery s m (''/projects/'' @ py_str (id_project p) @ path)
                       cb b ctx) (p\<lparr>p_closed := False\<rparr>))"
    by (simp add: step_request projectHTTPQuery_def member_created projectOnServerCreated_direct
          id_project_def)
qed

theorem lazy_creation_witness:
  "request_of (Post 0 ''/a'' (Callback 1) [(''x'', PBool True)] PNone) =
     Some (0, ''POST'', ''/a'', Callback 1, [(''x'', PBool True)], PNone)
   \<and> 0 \<notin> set (created (Project_init 0 1 {}))
   \<and> step (Post 0 ''/a'' (Callback 1) [(''x'', PBool True)] PNone) (Project_init 0 1 {}) =
       (None, emit (ServerPost 0 ''/projects''
                      (OnServerCreated ''POST'' ''/a'' (Callback 1) [(''x'', PBool True)] PNone)
                      [(''temporary'', PBool False), (''project_id'', PNone), (''path'', PNone)])
                (Project_init 0 1 {}))
   \<and> map_of [(''project_id'', PStr ''abc'')] ''project_id'' = Some (PStr ''abc'')
   \<and> p_effects (snd (step (ServerCreatedReply ''POST'' ''/a'' (Callback 1) [(''x'', PBool True)] PNone
                              [(''project_id'', PStr ''abc'')] False 0) (Project_init 0 1 {}))) =
       [ServerCreateHTTPQuery 0 ''POST'' ''/projects/abc/a'' (Callback 1) [(''x'', PBool True)] PNone]
   \<and> 0 \<in> set (created (snd (step (ServerCreatedReply ''POST'' ''/a'' (Callback 1)
                                     [(''x'', PBool True)] PNone
                                     [(''project_id'', PStr ''abc'')] False 0) (Project_init 0 1 {}))))
   \<and> p_effects (snd (step (Post 0 ''/a'' (Callback 1) [(''x'', PBool True)] PNone)
        (snd (step (ServerCreatedReply ''POST'' ''/a'' (Callback 1) [(''x'', PBool True)] PNone
                      [(''project_id'', PStr ''abc'')] False 0) (Project_init 0 1 {}))))) =
       [ServerCreateHTTPQuery 0 ''POST'' ''/projects/abc/a'' (Callback 1) [(''x'', PBool True)] PNone,
        ServerCreateHTTPQuery 0 ''POST'' ''/projects/abc/a'' (Callback 1) [(''x'', PBool True)] PNone]"
  using lazy_creation [of "Post 0 ''/a'' (Callback 1) [(''x'', PBool True)] PNone" 0 "''POST''"
      "''/a''" "Callback 1" "[(''x'', PBool True)]" PNone "Project_init 0 1 {}"
      "[(''project_id'', PStr ''abc'')]" "PStr ''abc''"]
    lazy_creation [of "Post 0 ''/a'' (Callback 1) [(''x'', PBool True)] PNone" 0 "''POST''"
      "''/a''" "Callback 1" "[(''x'', PBool True)]" PNone
      "snd (step (ServerCreatedReply ''POST'' ''/a'' (Callback 1) [(''x'', PBool True)] PNone
                      [(''project_id'', PStr ''abc'')] False 0) (Project_init 0 1 {}))"
      "[(''project_id'', PStr ''abc'')]" "PStr ''abc''"]
  by (simp add: Project_init_def created_def emit_def temporary_def id_project_def filesDir_def
        projectOnServerCreated_def Let_def)

text \<open>
  The claim as stated fails in its last part: with server 0 in the created set and the
  identifier back to \<open>None\<close>, a \<open>get\<close> for server 0 reads \<open>project_id\<close> from the
  empty dictionary, raises \<open>KeyError\<close> and sends nothing.
\<close>

theorem direct_request_without_identifier_counterexample:
  "0 \<in> set (created (run [Get 0 ''/a'' (Callback 1) PNone,
                          ServerCreatedReply ''GET'' ''/a'' (Callback 1) [] PNone
                            [(''project_id'', PStr ''abc'')] False 0,
                          SetId PNone] (Project_init 0 1 {})))
   \<and> step (Get 0 ''/b'' (Callback 2) PNone)
        (run [Get 0 ''/a'' (Callback 1) PNone,
              ServerCreatedReply ''GET'' ''/a'' (Callback 1) [] PNone
                [(''project_id'', PStr ''abc'')] False 0,
              SetId PNone] (Project_init 0 1 {})) =
      (Some KeyError,
       run [Get 0 ''/a'' (Callback 1) PNone,
              ServerCreatedReply ''GET'' ''/a'' (Callback 1) [] PNone
                [(''project_id'', PStr ''abc'')] False 0,
              SetId PNone] (Project_init 0 1 {}))"
  by (simp add: Project_init_def get_def projectHTTPQuery_def projectOnServerCreated_def
        setId_def emit_def created_def Let_def Dlist.member_def)

section \<open>The invariant of the created set\<close>

lemma member_created_step:
  "carries_project_id e \<Longrightarrow>
   s \<in> set (created (snd (step e p))) \<longleftrightarrow>
     creation_succeeded s e \<or> (s \<in> set (created p) \<and> \<not> close_reply_for s e)"
  by (auto simp: set_created_step split: event.splits)

lemma created_and_not_closed_Cons:
  "created_and_not_closed s (e # h) \<longleftrightarrow>
     (creation_succeeded s e \<and> (\<forall>x\<in>set h. \<not> close_reply_for s x)) \<or> created_and_not_closed s h"
  unfolding created_and_not_closed_def
  by (auto simp: Cons_eq_append_conv)

lemma member_created_run:
  "\<forall>e\<in>set h. carries_project_id e \<Longrightarrow>
   s \<in> set (created (run h p)) \<longleftrightarrow>
     created_and_not_closed s h \<or> (s \<in> set (created p) \<and> (\<forall>e\<in>set h. \<not> close_reply_for s e))"
proof (induction h arbitrary: p)
  case Nil
  then show ?case by (simp add: created_and_not_closed_def)
next
  case (Cons e h)
  have e: "carries_project_id e" and h: "\<forall>x\<in>set h. carries_project_id x"
    using Cons.prems by simp_all
  show ?case
    using Cons.IH[OF h, of "snd (step e p)"] member_created_step[OF e, of s p]
    by (auto simp: created_and_not_closed_Cons)
qed

text \<open>
  Claim C2. After any history of a new \<open>Project\<close> in which the servers answer
  creation requests as the REST interface says, a server is in the created set if and
  only if some creation response for it came without the error flag and no close
  response for it has been processed since.
\<close>

theorem created_servers_invariant:
  assumes "\<forall>e\<in>set h. carries_project_id e"
  shows "s \<in> set (created (run h (Project_init local self instances))) \<longleftrightarrow>
         (\<exists>before c after. h = before @ c # after \<and> creation_succeeded s c
            \<and> (\<forall>e\<in>set after. \<not> close_reply_for s e))"
  using member_created_run[OF assms, of s "Project_init local self instances"]
  by (simp add: created_and_not_closed_def created_def Project_init_def)

theorem created_servers_invariant_witness:
  "carries_project_id (Get 0 ''/a'' (Callback 1) PNone)
   \<and> carries_project_id (ServerCreatedReply ''GET'' ''/a'' (Callback 1) [] PNone
                            [(''project_id'', PStr ''abc'')] False 0)
   \<and> carries_project_id (ServerCreatedReply ''GET'' ''/b'' (Callback 2) [] PNone
                            [(''project_id'', PStr ''abc'')] False 5)
   \<and> carries_project_id Close
   \<and> carries_project_id (ProjectClosedReply [] False 0)
   \<and> 5 \<in> set (created (run [Get 0 ''/a'' (Callback 1) PNone,
                          ServerCreatedReply ''GET'' ''/a'' (Callback 1) [] PNone
                            [(''project_id'', PStr ''abc'')] False 0,
                          ServerCreatedReply ''GET'' ''/b'' (Callback 2) [] PNone
                            [(''project_id'', PStr ''abc'')] False 5,
                          Close,
                          ProjectClosedReply [] False 0] (Project_init 0 1 {})))
   \<and> 0 \<notin> set (created (run [Get 0 ''/a'' (Callback 1) PNone,
                          ServerCreatedReply ''GET'' ''/a'' (Callback 1) [] PNone
                            [(''project_id'', PStr ''abc'')] False 0,
                          ServerCreatedReply ''GET'' ''/b'' (Callback 2) [] PNone
                            [(''project_id'', PStr ''abc'')] False 5,
                          Close,
                          ProjectClosedReply [] False 0] (Project_init 0 1 {})))"
proof -
  let ?h = "[Get 0 ''/a'' (Callback 1) PNone,
             ServerCreatedReply ''GET'' ''/a'' (Callback 1) [] PNone
               [(''project_id'', PStr ''abc'')] False 0,
             ServerCreatedReply ''GET'' ''/b'' (Callback 2) [] PNone
               [(''project_id'', PStr ''abc'')] False 5,
             Close,
             ProjectClosedReply [] False 0]"
  have ok: "\<forall>e\<in>set ?h. carries_project_id e" by simp
  have split5: "?h = [Get 0 ''/a'' (Callback 1) PNone,
             ServerCreatedReply ''GET'' ''/a'' (Callback 1) [] PNone
               [(''project_id'', PStr ''abc'')] False 0] @
             ServerCreatedReply ''GET'' ''/b'' (Callback 2) [] PNone
               [(''project_id'', PStr ''abc'')] False 5 # [Close, ProjectClosedReply [] False 0]"
    by simp
  have "5 \<in> set (created (run ?h (Project_init 0 1 {})))"
    unfolding created_servers_invariant [OF ok, of 5 0 1 "{}"]
    by (intro exI conjI, rule split5) simp_all
  moreover have "0 \<notin> set (created (run ?h (Project_init 0 1 {})))"
    unfolding created_servers_invariant [OF ok, of 0 0 1 "{}"]
    by (simp add: Cons_eq_append_conv) auto
  ultimately show ?thesis by simp
qed

section \<open>A complete close\<close>

lemma remove1_empty_iff:
  "distinct xs \<Longrightarrow> s \<in> set xs \<Longrightarrow> remove1 s xs = [] \<longleftrightarrow> set xs = {s}"
proof -
  assume d: "distinct xs" and s: "s \<in> set xs"
  have "remove1 s xs = [] \<longleftrightarrow> set (remove1 s xs) = {}" by simp
  also have "\<dots> \<longleftrightarrow> set xs - {s} = {}" using d by simp
  also have "\<dots> \<longleftrightarrow> set xs = {s}" using s by auto
  finally show ?thesis .
qed

lemma project_closed_member:
  assumes "s \<in> set (created p)"
  shows "created (snd (project_closed params err s p)) = remove1 s (created p)"
    and "p_self (snd (project_closed params err s p)) = p_self p"
    and "p_id (snd (project_closed params err s p)) = p_id p"
    and "p_closed (snd (project_closed params err s p)) = (set (created p) = {s} \<or> p_closed p)"
    and "p_project_instances (snd (project_closed params err s p)) =
           (if set (created p) = {s} then p_project_instances p - {p_self p}
            else p_project_instances p)"
    and "\<exists>new. p_effects (snd (project_closed params err s p)) = p_effects p @ new
           \<and> count_list new (Emit project_closed_signal) = (if set (created p) = {s} then 1 else 0)"
  using assms remove1_empty_iff[of "created p" s]
  by (auto simp: project_closed_def Let_def emit_def created_def Dlist.member_def Dlist.length_def)

lemma run_close_replies:
  assumes "distinct (map snd replies)" and "set (map snd replies) = set (created p)"
    and "replies \<noteq> []"
  shows "let q = run (map (\<lambda>(params, server). ProjectClosedReply params False server) replies) p
         in created q = [] \<and> p_closed q
            \<and> p_project_instances q = p_project_instances p - {p_self p}
            \<and> (\<exists>new. p_effects q = p_effects p @ new
                  \<and> count_list new (Emit project_closed_signal) = 1)"
  using assms
proof (induction replies arbitrary: p)
  case Nil
  then show ?case by simp
next
  case (Cons r rs)
  obtain params s where r: "r = (params, s)" by (cases r)
  let ?p1 = "snd (project_closed params False s p)"
  have s: "s \<in> set (created p)" using Cons.prems(2) r by auto
  note pc = project_closed_member[OF s, of params False]
  obtain new1 where new1: "p_effects ?p1 = p_effects p @ new1"
    "count_list new1 (Emit project_closed_signal) = (if set (created p) = {s} then 1 else 0)"
    using pc(6) by blast
  have run_r: "run (map (\<lambda>(params, server). ProjectClosedReply params False server) (r # rs)) p =
                run (map (\<lambda>(params, server). ProjectClosedReply params False server) rs) ?p1"
    by (simp add: r)
  show ?case
  proof (cases "rs = []")
    case True
    then have last: "set (created p) = {s}" using Cons.prems(2) r by simp
    have "distinct (created p)" by (simp add: created_def)
    then have "created ?p1 = []"
      using remove1_empty_iff[of "created p" s] s last pc(1) by simp
    moreover have "p_closed ?p1" using pc(4) last by simp
    moreover have "p_project_instances ?p1 = p_project_instances p - {p_self p}"
      using pc(5) last by simp
    moreover have "\<exists>new. p_effects ?p1 = p_effects p @ new
                  \<and> count_list new (Emit project_closed_signal) = 1"
      using new1 last by simp
    ultimately show ?thesis
      by (simp add: True r Let_def)
  next
    case False
    have d: "distinct (map snd rs)" using Cons.prems(1) by simp
    have nin: "s \<notin> set (map snd rs)" using Cons.prems(1) r by simp
    have "set (created ?p1) = set (created p) - {s}"
      by (rule set_created_project_closed)
    then have st: "set (map snd rs) = set (created ?p1)"
      using Cons.prems(2) r nin by auto
    from False obtain x where x: "x \<in> set (map snd rs)"
      by (cases rs) auto
    then have "x \<noteq> s" and "x \<in> set (created p)"
      using nin Cons.prems(2) by auto
    then have notlast: "set (created p) \<noteq> {s}" by blast
    let ?q = "run (map (\<lambda>(params, server). ProjectClosedReply params False server) rs) ?p1"
    have ih: "created ?q = [] \<and> p_closed ?q
            \<and> p_project_instances ?q = p_project_instances ?p1 - {p_self ?p1}
            \<and> (\<exists>new. p_effects ?q = p_effects ?p1 @ new
                  \<and> count_list new (Emit project_closed_signal) = 1)"
      using Cons.IH[OF d st False] unfolding Let_def .
    then obtain new2 where new2: "p_effects ?q = p_effects ?p1 @ new2"
      "count_list new2 (Emit project_closed_signal) = 1" by blast
    have "p_effects ?q = p_effects p @ (new1 @ new2)"
      using new1(1) new2(1) by simp
    moreover have "count_list (new1 @ new2) (Emit project_closed_signal) = 1"
      using new1(2) new2(2) notlast by simp
    ultimately have ex: "\<exists>new. p_effects ?q = p_effects p @ new
                  \<and> count_list new (Emit project_closed_signal) = 1" by blast
    have "p_project_instances ?q = p_project_instances p - {p_self p}"
      using ih pc(2,5) notlast by simp
    with ih ex show ?thesis
      unfolding run_r Let_def by simp
  qed
qed

text \<open>
  Claim C4. For a project with a truthy identifier and a non-empty created set:
  after \<open>close()\<close> and one successful close response from each created server, in
  any order, the created set is empty, \<open>closed()\<close> is true, the closed signal has
  been emitted exactly once since \<open>close()\<close> was called, and the project is not
  in the set of live instances.
\<close>

theorem close_completes:
  assumes "truthy (id_project p)" and "created p \<noteq> []"
    and "distinct (map snd replies)" and "set (map snd replies) = set (created p)"
  shows "let q = run (Close # map (\<lambda>(params, server). ProjectClosedReply params False server)
                               replies) p
         in created q = [] \<and> closed q
            \<and> p_self p \<notin> p_project_instances q
            \<and> p_project_instances q = p_project_instances p - {p_self p}
            \<and> (\<exists>new. p_effects q = p_effects p @ new
                  \<and> count_list new (Emit project_closed_signal) = 1)"
proof -
  let ?c = "close p"
  have c: "created ?c = created p" "p_self ?c = p_self p"
    "p_project_instances ?c = p_project_instances p"
    "p_effects ?c = p_effects p @ Emit project_about_to_close_signal #
       map (\<lambda>server. ServerPost server (''/projects/'' @ py_str (p_id p) @ ''/close'')
                              ProjectClosed []) (created p)"
    using assms(1) by (simp_all add: close_def Let_def emit_def created_def id_project_def)
  have ne: "replies \<noteq> []" using assms(2,4) by auto
  have cnt: "count_list (Emit project_about_to_close_signal #
       map (\<lambda>server. ServerPost server (''/projects/'' @ py_str (p_id p) @ ''/close'')
                              ProjectClosed []) (created p)) (Emit project_closed_signal) = 0"
    by (induction "created p") (auto simp: count_list_0_iff)
  from run_close_replies[OF assms(3) _ ne, of ?c] assms(4) c(1)
  obtain new where
    q: "created (run (map (\<lambda>(params, server). ProjectClosedReply params False server) replies) ?c) = []"
       "p_closed (run (map (\<lambda>(params, server). ProjectClosedReply params False server) replies) ?c)"
       "p_project_instances (run (map (\<lambda>(params, server). ProjectClosedReply params False server) replies) ?c)
          = p_project_instances ?c - {p_self ?c}"
       "p_effects (run (map (\<lambda>(params, server). ProjectClosedReply params False server) replies) ?c)
          = p_effects ?c @ new"
       "count_list new (Emit project_closed_signal) = 1"
    by (auto simp: Let_def)
  show ?thesis
    using q c cnt by (simp add: Let_def closed_def)
qed

theorem close_completes_witness:
  "truthy (id_project (run [ServerCreatedReply ''GET'' ''/a'' (Callback 1) [] PNone
                              [(''project_id'', PStr ''abc'')] False 0,
                            ServerCreatedReply ''GET'' ''/b'' (Callback 2) [] PNone
                              [(''project_id'', PStr ''abc'')] False 5] (Project_init 0 1 {})))
   \<and> created (run [ServerCreatedReply ''GET'' ''/a'' (Callback 1) [] PNone
                     [(''project_id'', PStr ''abc'')] False 0,
                   ServerCreatedReply ''GET'' ''/b'' (Callback 2) [] PNone
                     [(''project_id'', PStr ''abc'')] False 5] (Project_init 0 1 {})) = [5, 0]
   \<and> created (run [ServerCreatedReply ''GET'' ''/a'' (Callback 1) [] PNone
                     [(''project_id'', PStr ''abc'')] False 0,
                   ServerCreatedReply ''GET'' ''/b'' (Callback 2) [] PNone
                     [(''project_id'', PStr ''abc'')] False 5,
                   Close,
                   ProjectClosedReply [] False 0,
                   ProjectClosedReply [] False 5] (Project_init 0 1 {})) = []
   \<and> closed (run [ServerCreatedReply ''GET'' ''/a'' (Callback 1) [] PNone
                     [(''project_id'', PStr ''abc'')] False 0,
                   ServerCreatedReply ''GET'' ''/b'' (Callback 2) [] PNone
                     [(''project_id'', PStr ''abc'')] False 5,
                   Close,
                   ProjectClosedReply [] False 0,
                   ProjectClosedReply [] False 5] (Project_init 0 1 {}))
   \<and> p_project_instances
        (run [ServerCreatedReply ''GET'' ''/a'' (Callback 1) [] PNone
                     [(''project_id'', PStr ''abc'')] False 0,
                   ServerCreatedReply ''GET'' ''/b'' (Callback 2) [] PNone
                     [(''project_id'', PStr ''abc'')] False 5,
                   Close,
                   ProjectClosedReply [] False 0,
                   ProjectClosedReply [] False 5] (Project_init 0 1 {})) = {}"
proof -
  let ?p = "run [ServerCreatedReply ''GET'' ''/a'' (Callback 1) [] PNone
                     [(''project_id'', PStr ''abc'')] False 0,
                   ServerCreatedReply ''GET'' ''/b'' (Callback 2) [] PNone
                     [(''project_id'', PStr ''abc'')] False 5] (Project_init 0 1 {})"
  have c: "created ?p = [5, 0]"
    by (simp add: Project_init_def projectOnServerCreated_def emit_def created_def Let_def)
  have i: "truthy (id_project ?p)"
    by (simp add: Project_init_def projectOnServerCreated_def emit_def id_project_def Let_def)
  have inst: "p_project_instances ?p = {1}" "p_self ?p = 1"
    by (simp_all add: Project_init_def projectOnServerCreated_def emit_def Let_def)
  have "distinct (map snd [([], 0::nat), ([], 5)])"
    and "set (map snd [([], 0::nat), ([], 5)]) = set (created ?p)"
    and "created ?p \<noteq> []"
    using c by auto
  from close_completes [OF i this(3) this(1) this(2)] c i inst
  show ?thesis by (simp add: Let_def)
qed

section \<open>The topology file\<close>

lemma rfind_absent: "c \<notin> set b \<Longrightarrow> nat (rfind b c + 1) = 0"
  by (simp add: rfind_def)

lemma rfind_last: "c \<notin> set b \<Longrightarrow> nat (rfind (a @ c # b) c + 1) = Suc (length a)"
proof -
  assume "c \<notin> set b"
  then have "takeWhile (\<lambda>x. x \<noteq> c) (rev b @ c # rev a) = rev b"
    by (simp add: takeWhile_append)
  then show ?thesis by (simp add: rfind_def)
qed

lemma rstrip_snoc: "d \<noteq> [] \<Longrightarrow> last d \<noteq> c \<Longrightarrow> rstrip (d @ [c]) c = d"
proof -
  assume "d \<noteq> []" and "last d \<noteq> c"
  then have "dropWhile (\<lambda>x. x = c) (rev d) = rev d"
    by (cases "rev d") (auto simp: last_rev hd_rev dest: arg_cong[where f=hd])
  then show ?thesis by (simp add: rstrip_def)
qed

lemma prefix_gns3_boundary:
  assumes "prefix ''.gns3'' (xs @ ''.gns3'')" and "xs \<noteq> []"
  shows "prefix ''.gns3'' xs"
  using assms by (auto simp: prefix_append Cons_eq_append_conv)

lemma replace_gns3_suffix:
  "\<not> sublist ''.gns3'' n \<Longrightarrow> replace_from ''.gns3'' [] (n @ ''.gns3'') = n"
proof (induction n)
  case Nil
  show ?case by simp
next
  case (Cons c cs)
  from Cons.prems have np: "\<not> prefix ''.gns3'' (c # cs)" and ns: "\<not> sublist ''.gns3'' cs"
    by (simp_all add: sublist_Cons_right)
  have "\<not> prefix ''.gns3'' ((c # cs) @ ''.gns3'')"
    using np prefix_gns3_boundary[of "c # cs"] by blast
  then have "replace_from ''.gns3'' [] ((c # cs) @ ''.gns3'') =
             c # replace_from ''.gns3'' [] (cs @ ''.gns3'')"
    by (simp only: append_Cons replace_from.simps if_False)
  with Cons.IH[OF ns] show ?case by (simp only:)
qed

lemma split_joined:
  assumes "sep \<notin> set n" and "suffix [sep] d \<longrightarrow> set d \<subseteq> {sep}"
  shows "dirname (join d (n @ ''.gns3'')) = d"
    and "basename (join d (n @ ''.gns3'')) = n @ ''.gns3''"
proof -
  let ?b = "n @ ''.gns3''"
  have nb: "sep \<notin> set ?b" using assms(1) by (simp add: sep_def)
  then have np: "\<not> prefix [sep] ?b" by (cases n) auto
  consider (empty) "d = []" | (slashes) "d \<noteq> []" "suffix [sep] d" | (plain) "d \<noteq> []" "\<not> suffix [sep] d"
    by blast
  then have "dirname (join d ?b) = d \<and> basename (join d ?b) = ?b"
  proof cases
    case empty
    then have j: "join d ?b = ?b" using np by (simp add: join_def)
    show ?thesis unfolding j using rfind_absent[OF nb] empty
      by (simp add: dirname_def basename_def)
  next
    case slashes
    then obtain d' where d': "d = d' @ [sep]" by (auto simp: suffix_def)
    have j: "join d ?b = d' @ sep # ?b" using np slashes d' by (simp add: join_def)
    have all: "d = replicate (length d) sep"
      using assms(2) slashes(2) by (metis replicate_eqI singletonD subsetD)
    have i: "nat (rfind (d' @ sep # ?b) sep + 1) = length d"
      using rfind_last[OF nb, of d'] d' by simp
    have t: "take (length d) (d' @ sep # ?b) = d" using d' by simp
    show ?thesis unfolding j dirname_def basename_def i Let_def t using all d' by auto
  next
    case plain
    then have l: "last d \<noteq> sep" by (metis append_butlast_last_id suffixI)
    have j: "join d ?b = d @ sep # ?b" using np plain by (simp add: join_def)
    have i: "nat (rfind (d @ sep # ?b) sep + 1) = Suc (length d)"
      using rfind_last[OF nb, of d] by simp
    have t: "take (Suc (length d)) (d @ sep # ?b) = d @ [sep]" by simp
    have nr: "d @ [sep] \<noteq> replicate (length (d @ [sep])) sep"
    proof
      assume "d @ [sep] = replicate (length (d @ [sep])) sep"
      then have "set (d @ [sep]) \<subseteq> {sep}" by (metis set_replicate_conv_if subset_insertI order_refl)
      then have "last d = sep" using plain(1) by (metis Un_subset_iff last_in_set set_append singletonD subsetD)
      with l show False by simp
    qed
    show ?thesis unfolding j dirname_def basename_def i Let_def t
      using nr rstrip_snoc[OF plain(1) l] by simp
  qed
  then show "dirname (join d (n @ ''.gns3'')) = d"
    and "basename (join d (n @ ''.gns3'')) = n @ ''.gns3''" by simp_all
qed

text \<open>
  Claim C7, as the code has it. With a files directory \<open>d\<close> and a name \<open>n\<close>,
  \<open>topologyFile()\<close> is \<open>os.path.join(d, n + ".gns3")\<close>. \<open>setTopologyFile\<close>
  applied to that path gives back \<open>d\<close> as \<open>filesDir()\<close> and \<open>n\<close> as
  \<open>name()\<close> when \<open>n\<close> has no separator and does not contain \<open>.gns3\<close>, and
  \<open>d\<close> does not end with a separator (unless it is made of separators only).
\<close>

theorem topology_file_roundtrip:
  "topologyFile (p\<lparr>p_files_dir := PStr d, p_name := PStr n\<rparr>) = Inr (join d (n @ ''.gns3''))
   \<and> (sep \<notin> set n \<and> \<not> sublist ''.gns3'' n \<and> (suffix [sep] d \<longrightarrow> set d \<subseteq> {sep}) \<longrightarrow>
        filesDir (setTopologyFile (join d (n @ ''.gns3'')) q) = PStr d
        \<and> name (setTopologyFile (join d (n @ ''.gns3'')) q) = PStr n)"
  by (auto simp: topologyFile_def setTopologyFile_def setFilesDir_def filesDir_def name_def
        split_joined str_replace_def replace_gns3_suffix)

theorem topology_file_roundtrip_witness:
  "CHR ''/'' \<notin> set ''c'' \<and> \<not> sublist ''.gns3'' ''c'' \<and> \<not> suffix ''/'' ''/a/b''
   \<and> topologyFile ((Project_init 0 1 {})\<lparr>p_files_dir := PStr ''/a/b'', p_name := PStr ''c''\<rparr>) =
       Inr ''/a/b/c.gns3''
   \<and> filesDir (setTopologyFile ''/a/b/c.gns3'' (Project_init 0 1 {})) = PStr ''/a/b''
   \<and> name (setTopologyFile ''/a/b/c.gns3'' (Project_init 0 1 {})) = PStr ''c''"
  using topology_file_roundtrip [where p = "Project_init 0 1 {}" and d = "''/a/b''" and n = "''c''"
      and q = "Project_init 0 1 {}"]
  by (simp add: sep_def join_def sublist_Cons_right suffix_def Cons_eq_append_conv)

text \<open>
  The claim as stated fails for a files directory that ends with a separator:
  \<open>os.path.dirname\<close> strips it, so \<open>/a/b/\<close> comes back as \<open>/a/b\<close>.
\<close>

theorem topology_file_roundtrip_counterexample:
  "topologyFile ((Project_init 0 1 {})\<lparr>p_files_dir := PStr ''/a/b/'', p_name := PStr ''c''\<rparr>) =
     Inr ''/a/b/c.gns3''
   \<and> filesDir (setTopologyFile ''/a/b/c.gns3'' (Project_init 0 1 {})) = PStr ''/a/b''
   \<and> PStr ''/a/b'' \<noteq> PStr ''/a/b/''"
  by (simp add: topologyFile_def setTopologyFile_def setFilesDir_def filesDir_def join_def
        sep_def dirname_def rfind_def rstrip_def Let_def Project_init_def suffix_def
        Cons_eq_append_conv)


end
